theory Spec2Isabelle
  imports Main
begin

section \<open>The reducer's round controller\<close>

text \<open>
  A shallow embedding of \<^verbatim>\<open>fedn/clients/reducer/control.py\<close>: the class
  \<^verbatim>\<open>ReducerControl\<close> with its registry of combiners, its three policies, the single
  round, the multi-round driver and the aggregation loop. The object's attributes are
  the fields of a record that every method takes and returns; an exception is the
  left summand of the method's result, next to the object as the exception leaves it.
  A call that never returns has the result \<open>None\<close>.
\<close>

subsection \<open>Values\<close>

text \<open>
  Model ids. The round draws its own id with \<^verbatim>\<open>uuid.uuid4()\<close>, a UUID object; every
  other id (from the state store, from a combiner, from the model repository) is an
  opaque Python value, a string here. A UUID never equals a string, the empty string
  is false in a condition and every UUID is true.
\<close>

datatype model_id = Str string | UUID nat

fun truthy_id :: "model_id option \<Rightarrow> bool" where
  "truthy_id None = False"
| "truthy_id (Some (Str s)) = (s \<noteq> [])"
| "truthy_id (Some (UUID n)) = True"

type_synonym blob = string

text \<open>
  The numbers a configuration or a combiner's report may hold: a Python int, or a float,
  which is \<open>m * 2 ^ e\<close>, an infinity or NaN.
\<close>

datatype number = PyInt int | PyFloat int int | PyInf | PyNegInf | PyNaN

type_synonym config = "string \<rightharpoonup> number"

datatype error = KeyError | ValueError | OverflowError | UnboundLocalError | LoadError

text \<open>\<^verbatim>\<open>int(x)\<close>: a float is cut towards zero, an infinity and NaN raise.\<close>

fun py_int :: "number \<Rightarrow> error + int" where
  "py_int (PyInt i) = Inr i"
| "py_int (PyFloat m e) =
     Inr (if e \<ge> 0 then m * 2 ^ nat e
          else if m \<ge> 0 then m div 2 ^ nat (- e)
          else - ((- m) div 2 ^ nat (- e)))"
| "py_int PyInf = Inl OverflowError"
| "py_int PyNegInf = Inl OverflowError"
| "py_int PyNaN = Inl ValueError"

text \<open>
  The round counts its wait in a float that starts at \<^verbatim>\<open>0.0\<close> and grows by
  \<^verbatim>\<open>1.0\<close>, so its value is always a whole number, held here as an \<open>int\<close>. Up to
  \<open>2 ^ 53\<close> the sum is exact; at \<open>2 ^ 53\<close> the sum \<open>2 ^ 53 + 1\<close> is no double and
  rounds back to \<open>2 ^ 53\<close>: the counter stays there.
\<close>

definition float_succ :: "int \<Rightarrow> int" where
  "float_succ w = (if w < 2 ^ 53 then w + 1 else w)"

text \<open>
  \<^verbatim>\<open>wait >= x\<close> for the counter \<open>w\<close>: Python compares a float with an int or a float by
  their exact values; no finite number reaches \<^verbatim>\<open>inf\<close>, and every comparison with NaN
  is false.
\<close>

fun float_ge :: "int \<Rightarrow> number \<Rightarrow> bool" where
  "float_ge w (PyInt t) = (t \<le> w)"
| "float_ge w (PyFloat m e) =
     (if e \<ge> 0 then m * 2 ^ nat e \<le> w else m \<le> w * 2 ^ nat (- e))"
| "float_ge w PyInf = False"
| "float_ge w PyNegInf = True"
| "float_ge w PyNaN = False"

text \<open>
  A compute plan is the deep copy of the configuration with three more keys; the keys
  \<^verbatim>\<open>task\<close> and \<^verbatim>\<open>model_id\<close> hold a string and an id, so they are fields of their own.
\<close>

record plan =
  entries :: config
  task :: string
  model_id :: "model_id option"

text \<open>
  A combiner as the reducer sees it: the handle's \<^verbatim>\<open>name\<close> and what the remote node
  answers to \<^verbatim>\<open>report()\<close>, \<^verbatim>\<open>get_model_id()\<close>, \<^verbatim>\<open>get_model()\<close> and
  \<^verbatim>\<open>allowing_clients()\<close>; \<^verbatim>\<open>started\<close> is the list of plans it received through
  \<^verbatim>\<open>start(plan)\<close>. Remote calls are taken to return.
\<close>

record combiner =
  name :: string
  report :: "string \<rightharpoonup> number"
  get_model_id :: "model_id option"
  get_model :: "blob option"
  allowing_clients :: bool
  started :: "plan list"

datatype ReducerState = idle | instructing | monitoring

text \<open>
  Combiners are objects: the registry and the round's lists hold references to them,
  and a call through any reference is seen through all. \<^verbatim>\<open>heap\<close> maps a reference to
  its object. \<^verbatim>\<open>latest\<close> is the cell behind \<^verbatim>\<open>statestore.get_latest()\<close> and
  \<^verbatim>\<open>statestore.set_latest(id)\<close>, \<^verbatim>\<open>model_repository\<close> the stored files in the order
  they were stored, \<^verbatim>\<open>stdout\<close> the lines printed (a formatted line is recorded as its
  template), \<^verbatim>\<open>uuid_calls\<close> the number of ids drawn so far.
\<close>

type_synonym ref = nat

record control =
  state :: ReducerState
  latest :: "model_id option"
  model_repository :: "(model_id \<times> blob) list"
  combiners :: "ref list"
  heap :: "ref \<Rightarrow> combiner"
  stdout :: "string list"
  uuid_calls :: nat

text \<open>
  What the file imports and does not define is a parameter: the helper
  (\<^verbatim>\<open>load_model\<close>, \<^verbatim>\<open>increment_average\<close>, which updates its first argument in place;
  \<^verbatim>\<open>None\<close> stands for a raised exception), the model object (\<^verbatim>\<open>save\<close>, and \<^verbatim>\<open>truth\<close>, its
  value in a condition), the id that the repository's \<^verbatim>\<open>set_model\<close> returns for a file,
  the ids \<^verbatim>\<open>uuid4\<close> draws, and \<^verbatim>\<open>tick\<close>, what one second of \<^verbatim>\<open>time.sleep\<close> does to
  a remote node.
\<close>

record 'r env =
  load_model :: "blob \<Rightarrow> 'r option"
  increment_average :: "'r \<Rightarrow> 'r \<Rightarrow> nat \<Rightarrow> 'r option"
  save :: "'r \<Rightarrow> blob"
  truth :: "'r \<Rightarrow> bool"
  set_model :: "(model_id \<times> blob) list \<Rightarrow> blob \<Rightarrow> model_id"
  uuid4 :: "nat \<Rightarrow> nat"
  tick :: "ref \<Rightarrow> combiner \<Rightarrow> combiner"

definition print :: "string \<Rightarrow> control \<Rightarrow> control" where
  "print s c = c\<lparr>stdout := stdout c @ [s]\<rparr>"

subsection \<open>State store and commit\<close>

definition get_latest_model :: "control \<Rightarrow> model_id option" where
  "get_latest_model c = latest c"

text \<open>
  \<^verbatim>\<open>commit(model_id, model=None)\<close>: with a model, the file is stored and the id the
  repository returns replaces the parameter; the latest pointer is set in both cases.
\<close>

definition commit :: "'r env \<Rightarrow> model_id option \<Rightarrow> 'r option \<Rightarrow> control \<Rightarrow> control" where
  "commit E mid model c =
     (case model of
        Some m \<Rightarrow>
          if truth E m
          then (let outfile = save E m;
                    mid' = set_model E (model_repository c) outfile
                in c\<lparr>model_repository := model_repository c @ [(mid', outfile)],
                     latest := Some mid'\<rparr>)
          else c\<lparr>latest := mid\<rparr>
      | None \<Rightarrow> c\<lparr>latest := mid\<rparr>)"

text \<open>
  \<^verbatim>\<open>_out_of_sync(combiners=None)\<close>: a missing or empty argument means the whole
  registry.
\<close>

definition out_of_sync :: "ref list option \<Rightarrow> control \<Rightarrow> ref list" where
  "out_of_sync arg c =
     (let cs = (case arg of None \<Rightarrow> combiners c
                          | Some [] \<Rightarrow> combiners c
                          | Some xs \<Rightarrow> xs)
      in filter (\<lambda>r. get_model_id (heap c r) \<noteq> get_latest_model c) cs)"

subsection \<open>Policies\<close>

definition check_round_participation_policy ::
    "plan \<Rightarrow> (string \<rightharpoonup> number) \<Rightarrow> error + bool" where
  "check_round_participation_policy compute_plan combiner_state =
     (case entries compute_plan ''clients_required'' of
        None \<Rightarrow> Inl KeyError
      | Some x \<Rightarrow>
          (case py_int x of
             Inl e \<Rightarrow> Inl e
           | Inr required \<Rightarrow>
               (case combiner_state ''nr_active_clients'' of
                  None \<Rightarrow> Inl KeyError
                | Some y \<Rightarrow>
                    (case py_int y of
                       Inl e \<Rightarrow> Inl e
                     | Inr active \<Rightarrow> Inr (required \<le> active)))))"

definition check_round_start_policy :: "'a list \<Rightarrow> bool" where
  "check_round_start_policy cs = (if length cs > 0 then True else False)"

definition check_round_validity_policy :: "'a list \<Rightarrow> bool" where
  "check_round_validity_policy cs = (if length cs > 0 then True else False)"

subsection \<open>Calls on a combiner\<close>

definition set_model_id :: "ref \<Rightarrow> model_id option \<Rightarrow> control \<Rightarrow> control" where
  "set_model_id r mid c = c\<lparr>heap := (heap c)(r := (heap c r)\<lparr>get_model_id := mid\<rparr>)\<rparr>"

definition start :: "ref \<Rightarrow> plan \<Rightarrow> control \<Rightarrow> control" where
  "start r p c = c\<lparr>heap := (heap c)(r := (heap c r)\<lparr>started := started (heap c r) @ [p]\<rparr>)\<rparr>"

definition sync_combiners :: "ref list \<Rightarrow> model_id option \<Rightarrow> control \<Rightarrow> control" where
  "sync_combiners rs mid c =
     (if \<not> truthy_id mid
      then print ''GOT NO MODEL TO SET! Have you seeded the FedML model?'' c
      else foldl (\<lambda>s r. set_model_id r mid s) c rs)"

text \<open>One second of sleep: every remote node moves on; a handle keeps its name.\<close>

definition sleep :: "'r env \<Rightarrow> control \<Rightarrow> control" where
  "sleep E c = c\<lparr>heap := (\<lambda>r. (tick E r (heap c r))\<lparr>name := name (heap c r)\<rparr>)\<rparr>"

subsection \<open>The registry\<close>

definition find_combiner :: "string \<Rightarrow> control \<Rightarrow> ref option" where
  "find_combiner n c = List.find (\<lambda>r. n = name (heap c r)) (combiners c)"

text \<open>\<^verbatim>\<open>add\<close> tests what \<^verbatim>\<open>find\<close> returns: a combiner object counts as true,
  \<^verbatim>\<open>None\<close> as false.\<close>

definition add :: "ref \<Rightarrow> control \<Rightarrow> control" where
  "add r c =
     (if state c \<noteq> idle
      then print ''Reducer is not idle, cannot add additional combiner'' c
      else if find_combiner (name (heap c r)) c \<noteq> None then c
      else (print ''adding combiner {}'' c)\<lparr>combiners := combiners c @ [r]\<rparr>)"

text \<open>\<^verbatim>\<open>list.remove\<close> deletes the first occurrence and raises ValueError when there is none.\<close>

definition remove :: "ref \<Rightarrow> control \<Rightarrow> (error + unit) \<times> control" where
  "remove r c =
     (if state c \<noteq> idle
      then (Inr (), print ''Reducer is not idle, cannot remove combiner'' c)
      else if r \<in> set (combiners c)
      then (Inr (), c\<lparr>combiners := remove1 r (combiners c)\<rparr>)
      else (Inl ValueError, c))"

definition find_available_combiner :: "control \<Rightarrow> ref option" where
  "find_available_combiner c = List.find (\<lambda>r. allowing_clients (heap c r)) (combiners c)"

subsection \<open>Aggregation\<close>

text \<open>
  The body of the \<^verbatim>\<open>try\<close> in \<^verbatim>\<open>reduce\<close>: the combiner's model is fetched again and
  loaded, and folded into the running model. \<^verbatim>\<open>None\<close> is any exception raised there:
  no buffer on a missing model, a failed load, the running model not yet bound, a failed
  fold. \<^verbatim>\<open>Some m\<close> is the running model after the update in place.
\<close>

definition try_increment :: "'r env \<Rightarrow> blob option \<Rightarrow> 'r option \<Rightarrow> nat \<Rightarrow> 'r option" where
  "try_increment E fetched model i =
     (case fetched of
        None \<Rightarrow> None
      | Some buf \<Rightarrow>
          (case load_model E buf of
             None \<Rightarrow> None
           | Some model_next \<Rightarrow>
               (case model of
                  None \<Rightarrow> None
                | Some m \<Rightarrow> increment_average E m model_next i)))"

text \<open>
  The loop of \<^verbatim>\<open>reduce\<close> over the combiners, with the counter \<^verbatim>\<open>i\<close> and the local
  variable \<^verbatim>\<open>model\<close>, which is \<^verbatim>\<open>None\<close> while it is unbound. An exception in the
  \<^verbatim>\<open>except\<close> clause itself leaves the method.
\<close>

fun reduce_loop :: "'r env \<Rightarrow> control \<Rightarrow> ref list \<Rightarrow> nat \<Rightarrow> 'r option \<Rightarrow> error + 'r option" where
  "reduce_loop E c [] i model = Inr model"
| "reduce_loop E c (r # rs) i model =
     (case get_model (heap c r) of
        None \<Rightarrow> reduce_loop E c rs i model
      | Some data \<Rightarrow>
          (case try_increment E (get_model (heap c r)) model i of
             Some m \<Rightarrow> reduce_loop E c rs (i + 1) (Some m)
           | None \<Rightarrow>
               (case load_model E data of
                  None \<Rightarrow> Inl LoadError
                | Some m \<Rightarrow> reduce_loop E c rs (i + 1) (Some m))))"

text \<open>\<^verbatim>\<open>return model\<close> on a variable that was never bound raises UnboundLocalError.\<close>

definition reduce :: "'r env \<Rightarrow> control \<Rightarrow> ref list \<Rightarrow> error + 'r" where
  "reduce E c rs =
     (case reduce_loop E c rs 1 None of
        Inl e \<Rightarrow> Inl e
      | Inr None \<Rightarrow> Inl UnboundLocalError
      | Inr (Some m) \<Rightarrow> Inr m)"

subsection \<open>One round\<close>

text \<open>The loop that collects the participating combiners, each paired with the plan.\<close>

fun participating :: "plan \<Rightarrow> control \<Rightarrow> ref list \<Rightarrow> error + (ref \<times> plan) list" where
  "participating p c [] = Inr []"
| "participating p c (r # rs) =
     (case check_round_participation_policy p (report (heap c r)) of
        Inl e \<Rightarrow> Inl e
      | Inr is_participating \<Rightarrow>
          (case participating p c rs of
             Inl e \<Rightarrow> Inl e
           | Inr ps \<Rightarrow> Inr (if is_participating then (r, p) # ps else ps)))"

text \<open>The loop that synchronises each participant with the latest model and starts it.\<close>

fun dispatch :: "(ref \<times> plan) list \<Rightarrow> control \<Rightarrow> control" where
  "dispatch [] c = c"
| "dispatch ((r, p) # ps) c =
     dispatch ps (start r p (print ''{} {}'' (sync_combiners [r] (get_latest_model c) c)))"

text \<open>
  The wait: while fewer of the participants are out of sync than there are participants,
  sleep a second, count it, and leave once the count has reached
  \<^verbatim>\<open>config['round_timeout']\<close>. The key is read after the first sleep only. The result
  is the final count; \<open>None\<close> is a wait that never ends.
\<close>

partial_function (option) wait_loop ::
    "'r env \<Rightarrow> config \<Rightarrow> ref list \<Rightarrow> nat \<Rightarrow> int \<Rightarrow> control
       \<Rightarrow> ((error + int) \<times> control) option" where
  "wait_loop E config cl n wait c =
     (if length (out_of_sync (Some cl) c) < n
      then (case config ''round_timeout'' of
              None \<Rightarrow> Some (Inl KeyError, sleep E c)
            | Some timeout \<Rightarrow>
                if float_ge (float_succ wait) timeout
                then Some (Inr (float_succ wait), sleep E c)
                else wait_loop E config cl n (float_succ wait) (sleep E c))
      else Some (Inr wait, c))"

declare wait_loop.simps [code]

text \<open>The end of the round, from \<^verbatim>\<open>if model:\<close> on.\<close>

definition round_commit ::
    "'r env \<Rightarrow> config \<Rightarrow> ref list \<Rightarrow> 'r \<Rightarrow> control \<Rightarrow> (error + model_id option) \<times> control" where
  "round_commit E config updated model c =
     (if truth E model
      then (let mid = UUID (uuid4 E (uuid_calls c));
                c1 = commit E (Some mid) (Some model) (c\<lparr>uuid_calls := Suc (uuid_calls c)\<rparr>);
                combiner_config =
                  \<lparr>entries = config, task = ''validation'', model_id = get_latest_model c1\<rparr>;
                c2 = foldl (\<lambda>s r. start r combiner_config s) c1 updated
            in (Inr (Some mid), c2))
      else (Inr None,
            print ''REDUCER: failed to updated model in round with config {}'' c))"

text \<open>The round after the wait: the updated set over the whole registry, the validity
  policy, the aggregation and the commit.\<close>

definition round_reduce ::
    "'r env \<Rightarrow> config \<Rightarrow> control \<Rightarrow> (error + model_id option) \<times> control" where
  "round_reduce E config c =
     (let updated = out_of_sync None c;
          c1 = print ''UPDATED: {}'' c;
          round_valid = check_round_validity_policy updated
      in if \<not> round_valid then (Inr None, c1)
         else (case reduce E c1 updated of
                 Inl e \<Rightarrow> (Inl e, c1)
               | Inr model \<Rightarrow> round_commit E config updated model c1))"

text \<open>The start of the round: the plan and the participants, with the two lines printed.\<close>

definition training_plan :: "config \<Rightarrow> control \<Rightarrow> plan" where
  "training_plan config c =
     \<lparr>entries = config(''rounds'' \<mapsto> PyInt 1), task = ''training'',
      model_id = get_latest_model c\<rparr>"

definition round_plan :: "config \<Rightarrow> control \<Rightarrow> (error + (ref \<times> plan) list) \<times> control" where
  "round_plan config c =
     (case participating (training_plan config c) c (combiners c) of
        Inl e \<Rightarrow> (Inl e, c)
      | Inr ps \<Rightarrow>
          (Inr ps, print ''ROUND START POLICY: {}'' (print ''PARTICIPATING: {}'' c)))"

text \<open>Synchronise and start the participants, then wait for them.\<close>

definition round_dispatch ::
    "'r env \<Rightarrow> config \<Rightarrow> (ref \<times> plan) list \<Rightarrow> control
       \<Rightarrow> ((error + int) \<times> control) option" where
  "round_dispatch E config ps c = wait_loop E config (map fst ps) (length ps) 0 (dispatch ps c)"

text \<open>A round that never leaves its wait returns nothing: \<open>None\<close>.\<close>

definition round ::
    "'r env \<Rightarrow> config \<Rightarrow> control \<Rightarrow> ((error + model_id option) \<times> control) option" where
  "round E config c =
     (if length (combiners c) < 1
      then Some (Inr None, print ''REDUCER: No combiners connected!'' c)
      else (case round_plan config c of
              (Inl e, c1) \<Rightarrow> Some (Inl e, c1)
            | (Inr ps, c1) \<Rightarrow>
                if \<not> check_round_start_policy ps then Some (Inr None, c1)
                else (case round_dispatch E config ps c1 of
                        None \<Rightarrow> None
                      | Some (Inl e, c2) \<Rightarrow> Some (Inl e, c2)
                      | Some (Inr w, c2) \<Rightarrow> Some (round_reduce E config c2))))"

subsection \<open>The driver\<close>

text \<open>The \<^verbatim>\<open>for\<close> loop of \<^verbatim>\<open>instruct\<close>, with the number of rounds left.\<close>

fun instruct_loop ::
    "'r env \<Rightarrow> config \<Rightarrow> nat \<Rightarrow> control \<Rightarrow> ((error + unit) \<times> control) option" where
  "instruct_loop E config 0 c = Some (Inr (), c)"
| "instruct_loop E config (Suc k) c =
     (case round E config c of
        None \<Rightarrow> None
      | Some (Inl e, c1) \<Rightarrow> Some (Inl e, c1)
      | Some (Inr mid, c1) \<Rightarrow>
          instruct_loop E config k
            (if truthy_id mid
             then print ''REDUCER: Global round completed, new model: {}'' c1
             else print ''REDUCER: Global round failed!'' c1))"

text \<open>\<^verbatim>\<open>range(int(config['rounds']))\<close> is evaluated once, before the first round, in the
  state \<^verbatim>\<open>monitoring\<close>; the state is set back to \<^verbatim>\<open>idle\<close> only after the loop.\<close>

definition instruct ::
    "'r env \<Rightarrow> config \<Rightarrow> control \<Rightarrow> ((error + unit) \<times> control) option" where
  "instruct E config c =
     (if state c = instructing
      then Some (Inr (), print ''Already set in INSTRUCTING state'' c)
      else
        (let c1 = c\<lparr>state := instructing\<rparr>;
             c2 = (if \<not> truthy_id (get_latest_model c1)
                   then print ''No model in model chain, please seed the alliance!'' c1
                   else c1);
             c3 = c2\<lparr>state := monitoring\<rparr>
         in case config ''rounds'' of
              None \<Rightarrow> Some (Inl KeyError, c3)
            | Some x \<Rightarrow>
                (case py_int x of
                   Inl e \<Rightarrow> Some (Inl e, c3)
                 | Inr k \<Rightarrow>
                     (case instruct_loop E config (nat k) c3 of
                        None \<Rightarrow> None
                      | Some (Inl e, c4) \<Rightarrow> Some (Inl e, c4)
                      | Some (Inr u, c4) \<Rightarrow> Some (Inr (), c4\<lparr>state := idle\<rparr>)))))"

subsection \<open>The registry's invariant\<close>

definition names_unique :: "control \<Rightarrow> bool" where
  "names_unique c = distinct (map (\<lambda>r. name (heap c r)) (combiners c))"

subsection \<open>A small network\<close>

text \<open>
  Two combiners, W1 with five active clients and W2 with none, both holding the latest
  model A0. A node that has been started holds a new model, A1, a second later. The
  helper reads a file's length as its model and averages integers; the repository names
  a file by its content.
\<close>

definition W1 :: combiner where
  "W1 = \<lparr>name = ''W1'', report = [''nr_active_clients'' \<mapsto> PyInt 5],
         get_model_id = Some (Str ''A0''), get_model = None,
         allowing_clients = True, started = []\<rparr>"

definition W2 :: combiner where
  "W2 = \<lparr>name = ''W2'', report = [''nr_active_clients'' \<mapsto> PyInt 0],
         get_model_id = Some (Str ''A0''), get_model = None,
         allowing_clients = False, started = []\<rparr>"

definition net_config :: config where
  "net_config =
     [''rounds'' \<mapsto> PyInt 1, ''clients_required'' \<mapsto> PyInt 3, ''round_timeout'' \<mapsto> PyInt 5]"

definition net_control :: control where
  "net_control =
     \<lparr>state = idle, latest = Some (Str ''A0''), model_repository = [],
      combiners = [0, 1], heap = (\<lambda>r. if r = 0 then W1 else W2),
      stdout = [], uuid_calls = 0\<rparr>"

definition net_env :: "nat env" where
  "net_env =
     \<lparr>load_model = (\<lambda>b. Some (length b)),
      increment_average = (\<lambda>m model_next i. Some ((m * (i - 1) + model_next) div i)),
      save = (\<lambda>m. replicate m CHR ''w''),
      truth = (\<lambda>m. True),
      set_model = (\<lambda>repo outfile. Str (''id-'' @ outfile)),
      uuid4 = (\<lambda>k. 1000 + k),
      tick = (\<lambda>r w. if started w = [] then w
                      else w\<lparr>get_model_id := Some (Str ''A1''), get_model := Some ''xyz''\<rparr>)\<rparr>"

text \<open>The same network with nodes that announce the new model A1 and deliver no file.\<close>

definition silent_env :: "nat env" where
  "silent_env = net_env\<lparr>tick := (\<lambda>r w. if started w = [] then w
                                       else w\<lparr>get_model_id := Some (Str ''A1'')\<rparr>)\<rparr>"

text \<open>The same network asking for ten clients, with nodes that never move, with a
  node that holds a file, with a timeout of infinity, after its participant W1 has been
  started, and with nobody registered.\<close>

definition starved_config :: config where
  "starved_config = net_config(''clients_required'' \<mapsto> PyInt 10)"

definition idle_env :: "nat env" where
  "idle_env = net_env\<lparr>tick := (\<lambda>r w. w)\<rparr>"

definition fed_control :: control where
  "fed_control = net_control\<lparr>heap := (\<lambda>r. W1\<lparr>get_model := Some ''xyz''\<rparr>)\<rparr>"



definition empty_control :: control where
  "empty_control = net_control\<lparr>combiners := []\<rparr>"

section \<open>Properties\<close>

subsection \<open>What a call leaves alone\<close>

text \<open>
  Only \<^verbatim>\<open>commit\<close> writes the latest pointer and the repository, only \<^verbatim>\<open>add\<close> and
  \<^verbatim>\<open>remove\<close> the registry, only \<^verbatim>\<open>instruct\<close> the state.
\<close>

definition same_store :: "control \<Rightarrow> control \<Rightarrow> bool" where
  "same_store c c' =
     (latest c' = latest c \<and> model_repository c' = model_repository c
      \<and> combiners c' = combiners c \<and> state c' = state c \<and> uuid_calls c' = uuid_calls c)"

lemma same_store_refl: "same_store c c"
  by (simp add: same_store_def)

lemma same_store_trans: "same_store a b \<Longrightarrow> same_store b c \<Longrightarrow> same_store a c"
  by (simp add: same_store_def)

lemma same_store_print: "same_store c (print s c)"
  by (simp add: same_store_def print_def)

lemma same_store_start: "same_store c (start r p c)"
  by (simp add: same_store_def start_def)

lemma same_store_set_model_id: "same_store c (set_model_id r mid c)"
  by (simp add: same_store_def set_model_id_def)

lemma same_store_sleep: "same_store c (sleep E c)"
  by (simp add: same_store_def sleep_def)

lemma same_store_sync: "same_store c (sync_combiners [r] mid c)"
  by (simp add: sync_combiners_def same_store_print same_store_set_model_id)

lemma same_store_dispatch: "same_store c (dispatch ps c)"
proof (induction ps c rule: dispatch.induct)
  case (1 c)
  show ?case by (simp add: same_store_refl)
next
  case (2 r p ps c)
  let ?c' = "start r p (print ''{} {}'' (sync_combiners [r] (get_latest_model c) c))"
  have "same_store c ?c'"
    by (blast intro: same_store_trans same_store_sync same_store_print same_store_start)
  with 2 show ?case by (auto intro: same_store_trans)
qed

lemma same_store_starts: "same_store c (foldl (\<lambda>s r. start r p s) c rs)"
proof (induction rs arbitrary: c)
  case Nil
  show ?case by (simp add: same_store_refl)
next
  case (Cons r rs)
  from same_store_start[of c r p] Cons[of "start r p c"] show ?case
    by (auto intro: same_store_trans)
qed

lemma same_store_wait_loop:
  assumes "wait_loop E config cl n wait c = Some y"
  shows "same_store c (snd y)"
proof (rule wait_loop.raw_induct
    [where P = "\<lambda>E config cl n wait c y. same_store c (snd y)", OF _ assms])
  fix f :: "'a env \<Rightarrow> config \<Rightarrow> ref list \<Rightarrow> nat \<Rightarrow> int \<Rightarrow> control
              \<Rightarrow> ((error + int) \<times> control) option"
  fix E config cl n wait c y
  assume IH: "\<And>E config cl n wait c y. f E config cl n wait c = Some y \<Longrightarrow> same_store c (snd y)"
  assume body:
    "(if length (out_of_sync (Some cl) c) < n
      then (case config ''round_timeout'' of
              None \<Rightarrow> Some (Inl KeyError, sleep E c)
            | Some timeout \<Rightarrow>
                if float_ge (float_succ wait) timeout
                then Some (Inr (float_succ wait), sleep E c)
                else f E config cl n (float_succ wait) (sleep E c))
      else Some (Inr wait, c)) = Some y"
  show "same_store c (snd y)"
  proof (cases "length (out_of_sync (Some cl) c) < n")
    case False
    with body have "snd y = c" by auto
    then show ?thesis by (simp add: same_store_refl)
  next
    case busy: True
    show ?thesis
    proof (cases "config ''round_timeout''")
      case None
      with busy body have "snd y = sleep E c" by auto
      then show ?thesis by (simp add: same_store_sleep)
    next
      case (Some t)
      show ?thesis
      proof (cases "float_ge (float_succ wait) t")
        case True
        with busy Some body have "snd y = sleep E c" by auto
        then show ?thesis by (simp add: same_store_sleep)
      next
        case False
        with busy Some body have "f E config cl n (float_succ wait) (sleep E c) = Some y"
          by simp
        from IH[OF this] same_store_sleep[of c E] show ?thesis
          by (rule same_store_trans[rotated])
      qed
    qed
  qed
qed

lemma same_store_round_plan: "same_store c (snd (round_plan config c))"
  by (auto simp: round_plan_def same_store_refl split: sum.splits
      intro: same_store_trans same_store_print)

lemma same_store_round_dispatch:
  "round_dispatch E config ps c = Some y \<Longrightarrow> same_store c (snd y)"
  unfolding round_dispatch_def
  by (blast intro: same_store_trans same_store_dispatch same_store_wait_loop)

lemma heap_round_plan: "heap (snd (round_plan config c)) = heap c"
  by (simp add: round_plan_def print_def split: sum.splits)

lemma reduce_loop_print: "reduce_loop E (print s c) rs i m = reduce_loop E c rs i m"
  by (induction rs arbitrary: i m) (auto simp: print_def split: option.splits)

lemma reduce_print: "reduce E (print s c) rs = reduce E c rs"
  by (simp add: reduce_def reduce_loop_print)

lemma reduce_Nil: "reduce E c [] = Inl UnboundLocalError"
  by (simp add: reduce_def)

subsection \<open>The wait, step by step\<close>






subsection \<open>The commit of a round\<close>

text \<open>
  A round that aggregates a model returns the id it drew, stores the saved model under
  the id the repository returns, and makes that id the latest pointer.
\<close>

lemma round_commit_success:
  assumes "truth E m"
  shows "\<exists>c'. round_commit E config updated m c = (Inr (Some (UUID (uuid4 E (uuid_calls c)))), c')
           \<and> model_repository c' =
               model_repository c @ [(set_model E (model_repository c) (save E m), save E m)]
           \<and> latest c' = Some (set_model E (model_repository c) (save E m))"
proof -
  let ?c1 = "commit E (Some (UUID (uuid4 E (uuid_calls c)))) (Some m) (c\<lparr>uuid_calls := Suc (uuid_calls c)\<rparr>)"
  let ?p = "\<lparr>entries = config, task = ''validation'', model_id = get_latest_model ?c1\<rparr>"
  have c1: "model_repository ?c1 =
               model_repository c @ [(set_model E (model_repository c) (save E m), save E m)]"
           "latest ?c1 = Some (set_model E (model_repository c) (save E m))"
    using assms by (simp_all add: commit_def Let_def)
  have "same_store ?c1 (foldl (\<lambda>s r. start r ?p s) ?c1 updated)"
    by (rule same_store_starts)
  with c1 have "model_repository (foldl (\<lambda>s r. start r ?p s) ?c1 updated) =
               model_repository c @ [(set_model E (model_repository c) (save E m), save E m)]"
       "latest (foldl (\<lambda>s r. start r ?p s) ?c1 updated) = Some (set_model E (model_repository c) (save E m))"
    by (simp_all add: same_store_def)
  moreover have "round_commit E config updated m c
      = (Inr (Some (UUID (uuid4 E (uuid_calls c)))), foldl (\<lambda>s r. start r ?p s) ?c1 updated)"
    using assms by (simp add: round_commit_def Let_def)
  ultimately show ?thesis by blast
qed

lemma round_success:
  assumes reg: "combiners c \<noteq> []"
      and plan: "round_plan config c = (Inr ps, c1)"
      and start: "check_round_start_policy ps"
      and wait: "round_dispatch E config ps c1 = Some (Inr w, c2)"
      and red: "reduce E c2 (out_of_sync None c2) = Inr m"
      and model: "truth E m"
  shows "\<exists>c'. round E config c = Some (Inr (Some (UUID (uuid4 E (uuid_calls c)))), c')
           \<and> model_repository c' =
               model_repository c @ [(set_model E (model_repository c) (save E m), save E m)]
           \<and> latest c' = Some (set_model E (model_repository c) (save E m))"
proof -
  let ?c3 = "print ''UPDATED: {}'' c2"
  from red have "out_of_sync None c2 \<noteq> []"
    by (auto simp: reduce_Nil)
  then have valid: "check_round_validity_policy (out_of_sync None c2)"
    by (simp add: check_round_validity_policy_def)
  have "same_store c c1"
    using same_store_round_plan[of c config] plan by simp
  moreover have "same_store c1 c2"
    using same_store_round_dispatch[OF wait] by simp
  ultimately have repo: "model_repository ?c3 = model_repository c" "uuid_calls ?c3 = uuid_calls c"
    by (simp_all add: same_store_def print_def)
  from round_commit_success[OF model, of config "out_of_sync None c2" ?c3]
  obtain c' where
    rc: "round_commit E config (out_of_sync None c2) m ?c3
           = (Inr (Some (UUID (uuid4 E (uuid_calls ?c3)))), c')"
        "model_repository c' =
           model_repository ?c3 @ [(set_model E (model_repository ?c3) (save E m), save E m)]"
        "latest c' = Some (set_model E (model_repository ?c3) (save E m))"
    by blast
  have "round_reduce E config c2 = (Inr (Some (UUID (uuid4 E (uuid_calls ?c3)))), c')"
    using valid red rc(1) by (simp add: round_reduce_def Let_def reduce_print)
  then have "round E config c = Some (Inr (Some (UUID (uuid4 E (uuid_calls ?c3)))), c')"
    using reg plan start wait by (simp add: round_def)
  with rc(2,3) repo show ?thesis by auto
qed

subsection \<open>Runs of the small network\<close>

lemma net_round_plan:
  "round_plan net_config net_control =
     (Inr [(0, training_plan net_config net_control)],
      print ''ROUND START POLICY: {}'' (print ''PARTICIPATING: {}'' net_control))"
  by (simp add: round_plan_def training_plan_def check_round_participation_policy_def
      net_config_def net_control_def W1_def W2_def)

lemma starved_round_plan:
  "round_plan starved_config net_control =
     (Inr [], print ''ROUND START POLICY: {}'' (print ''PARTICIPATING: {}'' net_control))"
  by (simp add: round_plan_def training_plan_def check_round_participation_policy_def
      starved_config_def net_config_def net_control_def W1_def W2_def)


subsection \<open>An empty registry, aggregation without files, the registry's names\<close>

lemma round_no_combiners:
  "combiners c = [] \<Longrightarrow>
   round E config c = Some (Inr None, print ''REDUCER: No combiners connected!'' c)"
  by (simp add: round_def)

lemma instruct_loop_no_combiners:
  "combiners c = [] \<Longrightarrow>
   instruct_loop E config k c =
     Some (Inr (), c\<lparr>stdout := stdout c @ concat (replicate k
        [''REDUCER: No combiners connected!'', ''REDUCER: Global round failed!''])\<rparr>)"
proof (induction k arbitrary: c)
  case 0
  show ?case by simp
next
  case (Suc k)
  let ?c' = "print ''REDUCER: Global round failed!'' (print ''REDUCER: No combiners connected!'' c)"
  from Suc.prems have "combiners ?c' = []"
    by (simp add: print_def)
  from Suc.IH[OF this] Suc.prems show ?case
    by (simp add: round_no_combiners print_def)
qed

lemma reduce_loop_no_models:
  "\<forall>r \<in> set rs. get_model (heap c r) = None \<Longrightarrow> reduce_loop E c rs i m = Inr m"
  by (induction rs arbitrary: i m) auto

lemma reduce_no_models:
  "\<forall>r \<in> set rs. get_model (heap c r) = None \<Longrightarrow> reduce E c rs = Inl UnboundLocalError"
  by (simp add: reduce_def reduce_loop_no_models)

lemma find_combiner_None:
  "find_combiner n c = None \<longleftrightarrow> n \<notin> (\<lambda>r. name (heap c r)) ` set (combiners c)"
  by (auto simp: find_combiner_def find_None_iff)

lemma names_unique_add: "names_unique c \<Longrightarrow> names_unique (add r c)"
  by (auto simp: names_unique_def add_def print_def find_combiner_None)

lemma distinct_map_remove1: "distinct (map f xs) \<Longrightarrow> distinct (map f (remove1 x xs))"
proof (induction xs)
  case Nil
  then show ?case by simp
next
  case (Cons a xs)
  have "f ` set (remove1 x xs) \<subseteq> f ` set xs"
    using set_remove1_subset[of x xs] by blast
  with Cons show ?case by auto
qed

lemma names_unique_remove: "names_unique c \<Longrightarrow> names_unique (snd (remove r c))"
  by (simp add: names_unique_def remove_def print_def distinct_map_remove1)

lemma names_unique_adds: "names_unique c \<Longrightarrow> names_unique (fold add rs c)"
  by (induction rs arbitrary: c) (simp_all add: names_unique_add)

section \<open>The claims\<close>

text \<open>
  Claim C1. In the small network the round succeeds: the aggregate is stored under the
  repository's id and that id becomes the latest pointer. The round returns the UUID it
  drew, which \<^verbatim>\<open>commit\<close> replaced by the repository's id before it set the pointer: the
  round does not return the id it committed.
\<close>

theorem round_returns_other_id:
  "map_option fst (round net_env net_config net_control) = Some (Inr (Some (UUID 1000)))
   \<and> map_option (\<lambda>r. latest (snd r)) (round net_env net_config net_control)
        = Some (Some (Str ''id-www''))
   \<and> map_option (\<lambda>r. model_repository (snd r)) (round net_env net_config net_control)
        = Some [(Str ''id-www'', ''www'')]
   \<and> map_option (\<lambda>r. fst r = Inr (latest (snd r))) (round net_env net_config net_control)
        = Some False"
proof -
  have a: "map_option fst (round net_env net_config net_control) = Some (Inr (Some (UUID 1000)))"
    by code_simp
  have b: "map_option (\<lambda>r. latest (snd r)) (round net_env net_config net_control)
        = Some (Some (Str ''id-www''))"
    by code_simp
  have c: "map_option (\<lambda>r. model_repository (snd r)) (round net_env net_config net_control)
        = Some [(Str ''id-www'', ''www'')]"
    by code_simp
  have d: "map_option (\<lambda>r. fst r = Inr (latest (snd r))) (round net_env net_config net_control)
        = Some False"
    by code_simp
  from a b c d show ?thesis by simp
qed

text \<open>
  Claim C2. With nodes that announce a new model and deliver no file, \<^verbatim>\<open>reduce\<close>
  returns a variable it never bound: the round raises UnboundLocalError, and so does the
  driver, which is left in the state \<^verbatim>\<open>monitoring\<close>. The round's own
  \<^verbatim>\<open>else\<close> branch for a missing model is not taken.
\<close>

theorem instruct_crashes_without_models:
  "map_option fst (round silent_env net_config net_control) = Some (Inl UnboundLocalError)
   \<and> map_option fst (instruct silent_env net_config net_control) = Some (Inl UnboundLocalError)
   \<and> map_option (\<lambda>r. state (snd r)) (instruct silent_env net_config net_control)
        = Some monitoring"
proof -
  have a: "map_option fst (round silent_env net_config net_control) = Some (Inl UnboundLocalError)"
    by code_simp
  have b: "map_option fst (instruct silent_env net_config net_control) = Some (Inl UnboundLocalError)"
    by code_simp
  have c: "map_option (\<lambda>r. state (snd r)) (instruct silent_env net_config net_control)
        = Some monitoring"
    by code_simp
  from a b c show ?thesis by simp
qed




text \<open>
  Claim C4, as the code has it. With an empty registry: a call in a state other than
  \<^verbatim>\<open>instructing\<close>, with a configuration whose \<^verbatim>\<open>rounds\<close> converts to an integer,
  returns; every scheduled round prints that no combiner is connected and fails, nothing
  but the state and the printed lines changes, and the state is \<^verbatim>\<open>idle\<close>. A call in
  the state \<^verbatim>\<open>instructing\<close> prints a line and returns with everything else as it was.
  A call whose \<^verbatim>\<open>rounds\<close> is missing or does not convert raises before any round, the
  latest pointer, the repository and every combiner as they were.
\<close>

theorem instruct_no_combiners:
  assumes "combiners c = []"
  shows "(state c \<noteq> instructing \<and> config ''rounds'' = Some x \<and> py_int x = Inr k \<longrightarrow>
            instruct E config c =
              Some (Inr (), c\<lparr>state := idle,
                stdout := stdout c
                  @ (if truthy_id (latest c) then []
                     else [''No model in model chain, please seed the alliance!''])
                  @ concat (replicate (nat k)
                      [''REDUCER: No combiners connected!'', ''REDUCER: Global round failed!''])\<rparr>))
       \<and> (state c = instructing \<longrightarrow>
            instruct E config c = Some (Inr (), print ''Already set in INSTRUCTING state'' c))
       \<and> (state c \<noteq> instructing
            \<and> (config ''rounds'' = None \<or> (\<exists>y e. config ''rounds'' = Some y \<and> py_int y = Inl e))
            \<longrightarrow> (\<exists>e c'. instruct E config c = Some (Inl e, c')
                   \<and> latest c' = latest c \<and> model_repository c' = model_repository c
                   \<and> heap c' = heap c \<and> combiners c' = []))"
proof (intro conjI impI)
  assume "state c \<noteq> instructing \<and> config ''rounds'' = Some x \<and> py_int x = Inr k"
  with assms show "instruct E config c =
              Some (Inr (), c\<lparr>state := idle,
                stdout := stdout c
                  @ (if truthy_id (latest c) then []
                     else [''No model in model chain, please seed the alliance!''])
                  @ concat (replicate (nat k)
                      [''REDUCER: No combiners connected!'', ''REDUCER: Global round failed!''])\<rparr>)"
    by (simp add: instruct_def Let_def get_latest_model_def print_def instruct_loop_no_combiners)
next
  assume "state c = instructing"
  then show "instruct E config c = Some (Inr (), print ''Already set in INSTRUCTING state'' c)"
    by (simp add: instruct_def)
next
  assume a: "state c \<noteq> instructing
            \<and> (config ''rounds'' = None \<or> (\<exists>y e. config ''rounds'' = Some y \<and> py_int y = Inl e))"
  with assms show "\<exists>e c'. instruct E config c = Some (Inl e, c')
                   \<and> latest c' = latest c \<and> model_repository c' = model_repository c
                   \<and> heap c' = heap c \<and> combiners c' = []"
    by (auto simp: instruct_def Let_def get_latest_model_def print_def)
qed

theorem instruct_no_combiners_witness:
  "instruct net_env net_config empty_control =
     Some (Inr (), empty_control\<lparr>state := idle,
        stdout := [''REDUCER: No combiners connected!'', ''REDUCER: Global round failed!'']\<rparr>)
   \<and> instruct net_env net_config (empty_control\<lparr>state := instructing\<rparr>)
       = Some (Inr (), print ''Already set in INSTRUCTING state''
                         (empty_control\<lparr>state := instructing\<rparr>))
   \<and> (\<exists>e c'. instruct net_env Map.empty empty_control = Some (Inl e, c')
          \<and> latest c' = latest empty_control \<and> model_repository c' = []
          \<and> heap c' = heap empty_control \<and> combiners c' = [])
   \<and> (\<exists>e c'. instruct net_env [''rounds'' \<mapsto> PyNaN] empty_control = Some (Inl e, c')
          \<and> latest c' = latest empty_control \<and> model_repository c' = []
          \<and> heap c' = heap empty_control \<and> combiners c' = [])"
proof -
  have e: "combiners empty_control = []" "combiners (empty_control\<lparr>state := instructing\<rparr>) = []"
    by (simp_all add: empty_control_def)
  have a: "state empty_control \<noteq> instructing \<and> net_config ''rounds'' = Some (PyInt 1)
           \<and> py_int (PyInt 1) = Inr 1"
    by (simp add: empty_control_def net_control_def net_config_def)
  have b: "state (empty_control\<lparr>state := instructing\<rparr>) = instructing"
    by simp
  have c: "state empty_control \<noteq> instructing
           \<and> ((Map.empty :: config) ''rounds'' = None
               \<or> (\<exists>y e. (Map.empty :: config) ''rounds'' = Some y \<and> py_int y = Inl e))"
    by (simp add: empty_control_def net_control_def)
  have d: "state empty_control \<noteq> instructing
           \<and> ([''rounds'' \<mapsto> PyNaN] ''rounds'' = None
               \<or> (\<exists>y e. [''rounds'' \<mapsto> PyNaN] ''rounds'' = Some y \<and> py_int y = Inl e))"
    by (simp add: empty_control_def net_control_def)
  have f: "latest empty_control = Some (Str ''A0'')" "stdout empty_control = []"
          "model_repository empty_control = []"
    by (simp_all add: empty_control_def net_control_def)
  from instruct_no_combiners[OF e(1), of net_config "PyInt 1" 1 net_env] a f
  have one: "instruct net_env net_config empty_control =
     Some (Inr (), empty_control\<lparr>state := idle,
        stdout := [''REDUCER: No combiners connected!'', ''REDUCER: Global round failed!'']\<rparr>)"
    by simp
  from instruct_no_combiners[OF e(2), of net_config "PyInt 1" 1 net_env] b
  have two: "instruct net_env net_config (empty_control\<lparr>state := instructing\<rparr>)
       = Some (Inr (), print ''Already set in INSTRUCTING state''
                         (empty_control\<lparr>state := instructing\<rparr>))"
    by blast
  from instruct_no_combiners[OF e(1), of Map.empty "PyInt 1" 1 net_env] c f
  have three: "\<exists>e c'. instruct net_env Map.empty empty_control = Some (Inl e, c')
          \<and> latest c' = latest empty_control \<and> model_repository c' = []
          \<and> heap c' = heap empty_control \<and> combiners c' = []"
    by simp
  from instruct_no_combiners[OF e(1), of "[''rounds'' \<mapsto> PyNaN]" "PyInt 1" 1 net_env] d f
  have four: "\<exists>e c'. instruct net_env [''rounds'' \<mapsto> PyNaN] empty_control = Some (Inl e, c')
          \<and> latest c' = latest empty_control \<and> model_repository c' = []
          \<and> heap c' = heap empty_control \<and> combiners c' = []"
    by simp
  from one two three four show ?thesis by blast
qed

text \<open>
  With nobody registered, a call in the state \<^verbatim>\<open>instructing\<close> returns in that state,
  and a call without a usable \<^verbatim>\<open>rounds\<close> raises and leaves the state \<^verbatim>\<open>monitoring\<close>.
\<close>

theorem instruct_not_always_idle:
  "combiners empty_control = []
   \<and> map_option (\<lambda>r. (fst r, state (snd r)))
        (instruct net_env net_config (empty_control\<lparr>state := instructing\<rparr>))
       = Some (Inr (), instructing)
   \<and> map_option (\<lambda>r. (fst r, state (snd r))) (instruct net_env Map.empty empty_control)
       = Some (Inl KeyError, monitoring)
   \<and> map_option (\<lambda>r. (fst r, state (snd r)))
        (instruct net_env [''rounds'' \<mapsto> PyNaN] empty_control)
       = Some (Inl ValueError, monitoring)"
  by (simp add: instruct_def Let_def print_def get_latest_model_def empty_control_def
      net_control_def)

text \<open>
  Claim C5. In a round that reaches the start policy, a false start policy ends the round
  with \<^verbatim>\<open>None\<close>, the latest pointer and every combiner as they were; a false validity
  policy after the wait ends it with \<^verbatim>\<open>None\<close> and the latest pointer as it was.
\<close>

theorem round_gates_abort:
  assumes reg: "combiners c \<noteq> []"
      and plan: "round_plan config c = (Inr ps, c1)"
  shows "(\<not> check_round_start_policy ps \<longrightarrow>
            round E config c = Some (Inr None, c1) \<and> latest c1 = latest c \<and> heap c1 = heap c)
       \<and> (check_round_start_policy ps \<and> round_dispatch E config ps c1 = Some (Inr w, c2)
            \<and> \<not> check_round_validity_policy (out_of_sync None c2) \<longrightarrow>
            round E config c = Some (Inr None, print ''UPDATED: {}'' c2)
            \<and> latest (print ''UPDATED: {}'' c2) = latest c)"
proof (intro conjI impI)
  assume "\<not> check_round_start_policy ps"
  with reg plan show "round E config c = Some (Inr None, c1)"
    by (simp add: round_def)
  from same_store_round_plan[of c config] plan show "latest c1 = latest c"
    by (simp add: same_store_def)
  from heap_round_plan[of config c] plan show "heap c1 = heap c"
    by simp
next
  assume a: "check_round_start_policy ps \<and> round_dispatch E config ps c1 = Some (Inr w, c2)
            \<and> \<not> check_round_validity_policy (out_of_sync None c2)"
  then have "round_reduce E config c2 = (Inr None, print ''UPDATED: {}'' c2)"
    by (simp add: round_reduce_def Let_def)
  with a reg plan show "round E config c = Some (Inr None, print ''UPDATED: {}'' c2)"
    by (simp add: round_def)
  have "same_store c c1"
    using same_store_round_plan[of c config] plan by simp
  moreover have "same_store c1 c2"
    using same_store_round_dispatch[of E config ps c1 "(Inr w, c2)"] a by simp
  ultimately show "latest (print ''UPDATED: {}'' c2) = latest c"
    by (simp add: same_store_def print_def)
qed

theorem round_gates_abort_witness:
  "map_option fst (round net_env starved_config net_control) = Some (Inr None)
   \<and> map_option (\<lambda>r. latest (snd r)) (round net_env starved_config net_control)
       = Some (latest net_control)
   \<and> map_option (\<lambda>r. heap (snd r)) (round net_env starved_config net_control)
       = Some (heap net_control)
   \<and> map_option fst (round idle_env net_config net_control) = Some (Inr None)
   \<and> map_option (\<lambda>r. latest (snd r)) (round idle_env net_config net_control)
       = Some (latest net_control)"
proof -
  let ?c1 = "print ''ROUND START POLICY: {}'' (print ''PARTICIPATING: {}'' net_control)"
  let ?ps = "[(0, training_plan net_config net_control)]"
  have reg: "combiners net_control \<noteq> []"
    by (simp add: net_control_def)
  have closed: "\<not> check_round_start_policy ([] :: (ref \<times> plan) list)"
    by (simp add: check_round_start_policy_def)
  have "open": "check_round_start_policy ?ps"
    by (simp add: check_round_start_policy_def)
  have "map_option (\<lambda>r. (isl (fst r), out_of_sync None (snd r)))
          (round_dispatch idle_env net_config ?ps ?c1) = Some (False, [])"
    by code_simp
  then obtain d where d: "round_dispatch idle_env net_config ?ps ?c1 = Some d"
      "\<not> isl (fst d)" "out_of_sync None (snd d) = []"
    by auto
  from d(1,2) have wait:
    "round_dispatch idle_env net_config ?ps ?c1 = Some (Inr (projr (fst d)), snd d)"
    by (simp add: prod_eq_iff)
  from d(3) have invalid: "\<not> check_round_validity_policy (out_of_sync None (snd d))"
    by (simp add: check_round_validity_policy_def)
  from round_gates_abort[OF reg starved_round_plan, of net_env] closed
  have one: "round net_env starved_config net_control = Some (Inr None, ?c1)
             \<and> latest ?c1 = latest net_control \<and> heap ?c1 = heap net_control"
    by blast
  from round_gates_abort[OF reg net_round_plan, of idle_env "projr (fst d)" "snd d"]
    "open" wait invalid
  have two: "round idle_env net_config net_control = Some (Inr None, print ''UPDATED: {}'' (snd d))
             \<and> latest (print ''UPDATED: {}'' (snd d)) = latest net_control"
    by blast
  from one two show ?thesis by simp
qed

text \<open>
  Claim C6, as the code has it. Outside the state \<^verbatim>\<open>idle\<close>, \<^verbatim>\<open>remove\<close> prints a line and
  returns with the registry as it was. In the state \<^verbatim>\<open>idle\<close>, a handle that is not in
  the registry raises ValueError, the object unchanged and nothing printed; one that is
  there loses its first occurrence.
\<close>

theorem remove_guards:
  "(state c \<noteq> idle \<longrightarrow>
      remove r c = (Inr (), print ''Reducer is not idle, cannot remove combiner'' c)
      \<and> combiners (snd (remove r c)) = combiners c)
   \<and> (state c = idle \<and> r \<notin> set (combiners c) \<longrightarrow> remove r c = (Inl ValueError, c))
   \<and> (state c = idle \<and> r \<in> set (combiners c) \<longrightarrow>
        remove r c = (Inr (), c\<lparr>combiners := remove1 r (combiners c)\<rparr>))"
  by (simp add: remove_def print_def)

theorem remove_guards_witness:
  "remove 0 (net_control\<lparr>state := monitoring\<rparr>)
     = (Inr (), print ''Reducer is not idle, cannot remove combiner''
                  (net_control\<lparr>state := monitoring\<rparr>))
   \<and> remove 7 net_control = (Inl ValueError, net_control)
   \<and> combiners (snd (remove 0 net_control)) = [1]"
proof -
  have a: "state (net_control\<lparr>state := monitoring\<rparr>) \<noteq> idle" by simp
  have b: "state net_control = idle \<and> 7 \<notin> set (combiners net_control)"
    by (simp add: net_control_def)
  have c: "state net_control = idle \<and> 0 \<in> set (combiners net_control)"
    by (simp add: net_control_def)
  have d: "remove1 0 (combiners net_control) = [1]"
    by (simp add: net_control_def)
  from remove_guards[of "net_control\<lparr>state := monitoring\<rparr>" 0] a
       remove_guards[of net_control 7] b remove_guards[of net_control 0] c d
  show ?thesis by simp
qed

text \<open>Removing a handle that was never added, in the state \<^verbatim>\<open>idle\<close>, is an error.\<close>

theorem remove_absent_raises:
  "state net_control = idle \<and> 7 \<notin> set (combiners net_control)
   \<and> fst (remove 7 net_control) = Inl ValueError
   \<and> stdout (snd (remove 7 net_control)) = stdout net_control"
  by (simp add: remove_def net_control_def)

text \<open>
  Claim C7. \<^verbatim>\<open>add\<close> only prints outside the state \<^verbatim>\<open>idle\<close>, does nothing when
  \<^verbatim>\<open>find\<close> knows the handle's name, and appends the handle otherwise. Distinct names in
  the registry stay distinct under \<^verbatim>\<open>add\<close>, under \<^verbatim>\<open>remove\<close> and under any sequence
  of \<^verbatim>\<open>add\<close> calls, from the empty registry in particular.
\<close>

theorem registry_names_unique:
  "(state c \<noteq> idle \<longrightarrow>
      add r c = print ''Reducer is not idle, cannot add additional combiner'' c)
   \<and> (state c = idle \<and> find_combiner (name (heap c r)) c \<noteq> None \<longrightarrow> add r c = c)
   \<and> (state c = idle \<and> find_combiner (name (heap c r)) c = None \<longrightarrow>
        add r c = (print ''adding combiner {}'' c)\<lparr>combiners := combiners c @ [r]\<rparr>)
   \<and> (names_unique c \<longrightarrow>
        names_unique (add r c) \<and> names_unique (snd (remove r c))
        \<and> names_unique (fold add rs c))
   \<and> (combiners c = [] \<longrightarrow> names_unique (fold add rs c))"
proof -
  have empty: "combiners c = [] \<Longrightarrow> names_unique c"
    by (simp add: names_unique_def)
  have behaviour:
    "state c \<noteq> idle \<longrightarrow>
       add r c = print ''Reducer is not idle, cannot add additional combiner'' c"
    "state c = idle \<and> find_combiner (name (heap c r)) c \<noteq> None \<longrightarrow> add r c = c"
    "state c = idle \<and> find_combiner (name (heap c r)) c = None \<longrightarrow>
       add r c = (print ''adding combiner {}'' c)\<lparr>combiners := combiners c @ [r]\<rparr>"
    by (simp_all add: add_def)
  have invariant:
    "names_unique c \<longrightarrow>
       names_unique (add r c) \<and> names_unique (snd (remove r c))
       \<and> names_unique (fold add rs c)"
    by (simp add: names_unique_add names_unique_remove names_unique_adds)
  have "combiners c = [] \<longrightarrow> names_unique (fold add rs c)"
    using empty by (simp add: names_unique_adds)
  with behaviour invariant show ?thesis by blast
qed

theorem registry_names_unique_witness:
  "names_unique net_control
   \<and> add 1 net_control = net_control
   \<and> add 0 (net_control\<lparr>state := monitoring\<rparr>)
       = print ''Reducer is not idle, cannot add additional combiner''
           (net_control\<lparr>state := monitoring\<rparr>)
   \<and> combiners (add 0 (net_control\<lparr>combiners := [1]\<rparr>)) = [1, 0]
   \<and> names_unique (add 0 (net_control\<lparr>combiners := [1]\<rparr>))
   \<and> names_unique (snd (remove 1 net_control))
   \<and> names_unique (fold add [0, 1, 0, 2] (net_control\<lparr>combiners := []\<rparr>))"
proof -
  have u: "names_unique net_control" "names_unique (net_control\<lparr>combiners := [1]\<rparr>)"
    by (simp_all add: names_unique_def net_control_def W1_def W2_def)
  have a: "state net_control = idle \<and> find_combiner (name (heap net_control 1)) net_control \<noteq> None"
    by (simp add: find_combiner_def net_control_def W1_def W2_def)
  have b: "state (net_control\<lparr>state := monitoring\<rparr>) \<noteq> idle" by simp
  have c: "state (net_control\<lparr>combiners := [1]\<rparr>) = idle
           \<and> find_combiner (name (heap (net_control\<lparr>combiners := [1]\<rparr>) 0))
                (net_control\<lparr>combiners := [1]\<rparr>) = None"
    by (simp add: find_combiner_def net_control_def W1_def W2_def)
  have e: "combiners (net_control\<lparr>combiners := []\<rparr>) = []" by simp
  from registry_names_unique[of net_control 1 "[]"] u(1) a
  have one: "add 1 net_control = net_control" "names_unique (snd (remove 1 net_control))"
    by blast+
  from registry_names_unique[of "net_control\<lparr>state := monitoring\<rparr>" 0 "[]"] b
  have two: "add 0 (net_control\<lparr>state := monitoring\<rparr>)
       = print ''Reducer is not idle, cannot add additional combiner''
           (net_control\<lparr>state := monitoring\<rparr>)"
    by blast
  from registry_names_unique[of "net_control\<lparr>combiners := [1]\<rparr>" 0 "[]"] u(2) c
  have three: "add 0 (net_control\<lparr>combiners := [1]\<rparr>)
       = (print ''adding combiner {}'' (net_control\<lparr>combiners := [1]\<rparr>))
           \<lparr>combiners := combiners (net_control\<lparr>combiners := [1]\<rparr>) @ [0]\<rparr>"
     "names_unique (add 0 (net_control\<lparr>combiners := [1]\<rparr>))"
    by blast+
  from registry_names_unique[of "net_control\<lparr>combiners := []\<rparr>" 0 "[0, 1, 0, 2]"] e
  have four: "names_unique (fold add [0, 1, 0, 2] (net_control\<lparr>combiners := []\<rparr>))"
    by blast
  from u(1) one two three four show ?thesis by simp
qed

text \<open>
  Claim C8. Over a single combiner whose model is the file \<open>a\<close>, and \<open>a\<close> loads as \<open>m\<close>,
  \<^verbatim>\<open>reduce\<close> returns \<open>m\<close>.
\<close>

theorem reduce_single:
  assumes "get_model (heap c r) = Some a" and "load_model E a = Some m"
  shows "reduce E c [r] = Inr m"
  using assms by (simp add: reduce_def try_increment_def)

theorem reduce_single_witness:
  "get_model (heap fed_control 0) = Some ''xyz'' \<and> load_model net_env ''xyz'' = Some 3
   \<and> reduce net_env fed_control [0] = Inr 3"
proof -
  have a: "get_model (heap fed_control 0) = Some ''xyz''"
    by (simp add: fed_control_def)
  have b: "load_model net_env ''xyz'' = Some 3"
    by (simp add: net_env_def)
  from reduce_single[OF a b] a b show ?thesis by simp
qed

text \<open>
  Claim C9. The participation policy answers whether the plan's \<^verbatim>\<open>clients_required\<close>
  is at most the combiner's \<^verbatim>\<open>nr_active_clients\<close>, both integers. In the small network,
  which asks for three clients, W1 with five is admitted and W2 with none is not, the
  participants are W1 alone, and the start policy holds of them.
\<close>

theorem participation_policy:
  "(entries p ''clients_required'' = Some (PyInt required)
      \<and> st ''nr_active_clients'' = Some (PyInt active)
      \<longrightarrow> check_round_participation_policy p st = Inr (required \<le> active))
   \<and> check_round_participation_policy (training_plan net_config net_control) (report W1) = Inr True
   \<and> check_round_participation_policy (training_plan net_config net_control) (report W2) = Inr False
   \<and> participating (training_plan net_config net_control) net_control (combiners net_control)
       = Inr [(0, training_plan net_config net_control)]
   \<and> check_round_start_policy [(0 :: ref, training_plan net_config net_control)]"
  by (simp add: check_round_participation_policy_def training_plan_def check_round_start_policy_def
      net_config_def net_control_def W1_def W2_def)

theorem participation_policy_witness:
  "check_round_participation_policy (training_plan net_config net_control)
     [''nr_active_clients'' \<mapsto> PyInt 3] = Inr True
   \<and> check_round_participation_policy (training_plan net_config net_control)
     [''nr_active_clients'' \<mapsto> PyInt 2] = Inr False"
proof -
  have a: "entries (training_plan net_config net_control) ''clients_required'' = Some (PyInt 3)"
    by (simp add: training_plan_def net_config_def)
  from participation_policy[of "training_plan net_config net_control" 3
         "[''nr_active_clients'' \<mapsto> PyInt 3]" 3]
       participation_policy[of "training_plan net_config net_control" 3
         "[''nr_active_clients'' \<mapsto> PyInt 2]" 2] a
  show ?thesis by simp
qed

text \<open>
  Claim C10. \<^verbatim>\<open>commit\<close> without a model sets the latest pointer to the id it is given
  and stores nothing.
\<close>

theorem commit_without_model:
  "commit E mid None c = c\<lparr>latest := mid\<rparr>
   \<and> latest (commit E mid None c) = mid
   \<and> model_repository (commit E mid None c) = model_repository c"
  by (simp add: commit_def)

end
